theory Spec2Isabelle
  imports Complex_Main
begin

section \<open>JavaScript exceptions and objects\<close>

text \<open>Exceptions, and the outcome of a method that mutates its object and may throw: the
  mutations made before the throw stay.\<close>

datatype js_error = TypeError | ReferenceError

datatype 's completion = Normal 's | Throw js_error 's

definition seq :: "'s completion \<Rightarrow> ('s \<Rightarrow> 's completion) \<Rightarrow> 's completion" where
  "seq c f = (case c of Normal s \<Rightarrow> f s | Throw e s \<Rightarrow> Throw e s)"

text \<open>A call of a method that no class of the file defines (\<open>obj.m\<close> is \<open>undefined\<close>), or of
  a method on \<open>null\<close> or \<open>undefined\<close>, raises TypeError and leaves the state as it is.\<close>

definition undefined_method :: "'s \<Rightarrow> 's completion" where
  "undefined_method s = Throw TypeError s"

text \<open>
  A plain object created by \<open>{}\<close> and used as a dictionary is modelled by the map of its
  own properties. Reading \<open>obj[key]\<close> follows the prototype chain: for a key that is not an
  own property but names a member of \<open>Object.prototype\<close> the read yields that member (a
  function, or for \<open>__proto__\<close> the prototype object), and \<open>undefined\<close> for any other key.
\<close>

definition Object_prototype_keys :: "string list" where
  "Object_prototype_keys =
     [''constructor'', ''hasOwnProperty'', ''isPrototypeOf'', ''propertyIsEnumerable'',
      ''toLocaleString'', ''toString'', ''valueOf'', ''__proto__'', ''__defineGetter__'',
      ''__defineSetter__'', ''__lookupGetter__'', ''__lookupSetter__'']"

datatype 'a property = Own 'a | Inherited | Undefined

definition get_property :: "(string \<rightharpoonup> 'a) \<Rightarrow> string \<Rightarrow> 'a property" where
  "get_property obj key =
     (case obj key of
        Some v \<Rightarrow> Own v
      | None \<Rightarrow> if key \<in> set Object_prototype_keys then Inherited else Undefined)"

section \<open>Entities (src/public/js/build.js)\<close>

text \<open>
  JavaScript numbers are modelled by exact rationals. Every number that the entity code
  computes is a sum or difference of the numbers it is given (positions, velocities, the
  canvas width and the constants 16, 5, 10 and 0.5), so no infinity and no NaN arises, and
  the comparisons of the source read the same on rationals.

  An \<open>Entity\<close> has the fields its constructor assigns. \<open>isDestroyed\<close> is the property that
  \<open>DevGameMaker.cleanup\<close> reads: no constructor and no method of build.js assigns it, so it
  reads \<open>undefined\<close> (falsy) on every object the code creates; the field is \<open>False\<close> for
  that. \<open>Player\<close> and \<open>PowerUp\<close> extend the record, as the classes extend \<open>Entity\<close>; an
  \<open>Enemy\<close> adds no field.
\<close>

type_synonym num = rat

record entity =
  pos :: "num \<times> num"
  vel :: "num \<times> num"
  sprite :: string
  hitbox :: "num \<times> num \<times> num \<times> num"
  dying :: bool
  isDestroyed :: bool

record player = entity +
  health :: num
  invincibility :: bool

record powerUp = entity +
  type :: string

definition Entity :: "num \<times> num \<Rightarrow> string \<Rightarrow> entity" where
  "Entity p s =
     \<lparr>pos = (fst p, snd p), vel = (0, 0), sprite = s,
      hitbox = (fst p, snd p, 16, 16), dying = False, isDestroyed = False\<rparr>"

text \<open>\<open>checkBounds\<close> reads the global \<open>canvas\<close>, which the host page provides; its width is the
  parameter \<open>cw\<close>.\<close>

definition checkBounds :: "num \<Rightarrow> 'a entity_scheme \<Rightarrow> 'a entity_scheme" where
  "checkBounds cw e =
     (case hitbox e of (hx, hy, hw, hh) \<Rightarrow>
        if fst (pos e) < 0 then e\<lparr>pos := (0, snd (pos e))\<rparr>
        else if fst (pos e) > cw - hw then e\<lparr>pos := (cw - hw, snd (pos e))\<rparr>
        else e)"

definition update :: "num \<Rightarrow> 'a entity_scheme \<Rightarrow> 'a entity_scheme" where
  "update cw e =
     checkBounds cw (e\<lparr>pos := (fst (pos e) + fst (vel e), snd (pos e) + snd (vel e))\<rparr>)"

definition isCollideWith :: "'a entity_scheme \<Rightarrow> 'b entity_scheme \<Rightarrow> bool" where
  "isCollideWith a b =
     (case hitbox a of (x1, y1, w1, h1) \<Rightarrow>
      case hitbox b of (x2, y2, w2, h2) \<Rightarrow>
        \<not> (x1 > x2 + w2 \<or> x1 + w1 < x2 \<or> y1 > y2 + h2 \<or> y1 + h1 < y2))"

text \<open>\<open>Entity.destroy\<close> sets \<open>dying\<close> and then calls \<open>this.emit\<close>. Neither \<open>Entity\<close> nor a
  subclass defines \<open>emit\<close> (only \<open>DevGameMaker\<close> does), so the call raises TypeError; the
  assignment before it stays.\<close>

definition destroy :: "'a entity_scheme \<Rightarrow> 'a entity_scheme completion" where
  "destroy e = Throw TypeError (e\<lparr>dying := True\<rparr>)"

subsection \<open>Player, Enemy, PowerUp\<close>

definition Player :: "num \<times> num \<Rightarrow> player" where
  "Player p = entity.extend (Entity p ''path/to/player/sprite'')
                (player.fields 100 False)"

definition moveLeft :: "player \<Rightarrow> player" where
  "moveLeft p = p\<lparr>vel := (- 5, snd (vel p))\<rparr>"

definition moveRight :: "player \<Rightarrow> player" where
  "moveRight p = p\<lparr>vel := (5, snd (vel p))\<rparr>"

definition jump :: "player \<Rightarrow> player" where
  "jump p = p\<lparr>vel := (fst (vel p), - 10)\<rparr>"

definition fire :: "player \<Rightarrow> player" where
  "fire p = p"

definition Player_update :: "num \<Rightarrow> player \<Rightarrow> player" where
  "Player_update cw p =
     (let p1 = update cw p;
          p2 = p1\<lparr>vel := (fst (vel p1), snd (vel p1) + 1 / 2)\<rparr>
      in if fst (vel p2) \<noteq> 0 then p2\<lparr>vel := (0, snd (vel p2))\<rparr> else p2)"

definition Enemy :: "num \<times> num \<Rightarrow> entity" where
  "Enemy p = (Entity p ''path/to/enemy/sprite'')\<lparr>dying := False\<rparr>"

definition PowerUp :: "num \<times> num \<Rightarrow> string \<Rightarrow> powerUp" where
  "PowerUp p t = entity.extend (Entity p ''path/to/powerup/sprite'') (powerUp.fields t)"

subsection \<open>Reading a hitbox\<close>

definition hitbox_pos :: "'a entity_scheme \<Rightarrow> num \<times> num" where
  "hitbox_pos e = (case hitbox e of (hx, hy, hw, hh) \<Rightarrow> (hx, hy))"

definition hitbox_width :: "'a entity_scheme \<Rightarrow> num" where
  "hitbox_width e = (case hitbox e of (hx, hy, hw, hh) \<Rightarrow> hw)"

definition hitbox_height :: "'a entity_scheme \<Rightarrow> num" where
  "hitbox_height e = (case hitbox e of (hx, hy, hw, hh) \<Rightarrow> hh)"

text \<open>The extent of the overlap of two hitboxes on each axis: the right (lower) end of the
  overlap minus its left (upper) end. It is negative when the boxes are apart on that axis
  and zero when they only touch.\<close>

definition overlap_x :: "'a entity_scheme \<Rightarrow> 'b entity_scheme \<Rightarrow> num" where
  "overlap_x a b =
     min (fst (hitbox_pos a) + hitbox_width a) (fst (hitbox_pos b) + hitbox_width b)
       - max (fst (hitbox_pos a)) (fst (hitbox_pos b))"

definition overlap_y :: "'a entity_scheme \<Rightarrow> 'b entity_scheme \<Rightarrow> num" where
  "overlap_y a b =
     min (snd (hitbox_pos a) + hitbox_height a) (snd (hitbox_pos b) + hitbox_height b)
       - max (snd (hitbox_pos a)) (snd (hitbox_pos b))"

text \<open>The collision test in the words of the specification: the boxes overlap with strictly
  positive extent on both axes.\<close>

definition collidesWith_spec :: "'a entity_scheme \<Rightarrow> 'b entity_scheme \<Rightarrow> bool" where
  "collidesWith_spec a b \<longleftrightarrow> 0 < overlap_x a b \<and> 0 < overlap_y a b"

section \<open>The game controller (src/public/js/build.js, class DevGameMaker)\<close>

text \<open>
  The controller's fields are those its constructor assigns (\<open>maps\<close>, which no method reads
  or writes, is left out). \<open>currentMap\<close> is \<open>null\<close> (\<open>None\<close>) from the constructor on; no
  method assigns it. An event handler is a callback of the host page: the model names it
  by a number and records each call in \<open>notified\<close>, in the order of the calls.
  \<open>pendingFrames\<close> counts the callbacks handed to \<open>requestAnimationFrame\<close> that the host
  has not run yet, and \<open>pendingTimeouts\<close> the timers set by \<open>setTimeout\<close>.
\<close>

record game =
  enemies :: "entity list"
  powerUps :: "powerUp list"
  eventListeners :: "string \<rightharpoonup> nat list"
  player :: player
  currentMap :: "string option"
  playerLives :: int
  isPaused :: bool
  score :: int
  pendingFrames :: nat
  pendingTimeouts :: nat
  notified :: "(string \<times> nat) list"

fun forEach :: "(nat \<Rightarrow> 's \<Rightarrow> 's completion) \<Rightarrow> nat list \<Rightarrow> 's \<Rightarrow> 's completion" where
  "forEach f [] s = Normal s"
| "forEach f (i # is) s = seq (f i s) (forEach f is)"

definition requestAnimationFrame :: "game \<Rightarrow> game" where
  "requestAnimationFrame g = g\<lparr>pendingFrames := pendingFrames g + 1\<rparr>"

text \<open>The constructor, with \<open>init\<close>: one frame is requested.\<close>

definition DevGameMaker :: game where
  "DevGameMaker = requestAnimationFrame
     \<lparr>enemies = [], powerUps = [], eventListeners = Map.empty,
      player = Player (50, 100), currentMap = None, playerLives = 3,
      isPaused = False, score = 0, pendingFrames = 0, pendingTimeouts = 0,
      notified = []\<rparr>"

text \<open>\<open>on\<close> and \<open>emit\<close> read \<open>this.eventListeners[event]\<close>. An inherited member is truthy
  and has neither \<open>push\<close> nor \<open>forEach\<close>.\<close>

definition on :: "string \<Rightarrow> nat \<Rightarrow> game \<Rightarrow> game completion" where
  "on event callback g =
     (case get_property (eventListeners g) event of
        Own hs \<Rightarrow> Normal (g\<lparr>eventListeners := (eventListeners g)(event \<mapsto> hs @ [callback])\<rparr>)
      | Inherited \<Rightarrow> undefined_method g
      | Undefined \<Rightarrow> Normal (g\<lparr>eventListeners := (eventListeners g)(event \<mapsto> [callback])\<rparr>))"

definition call_handlers :: "string \<Rightarrow> nat list \<Rightarrow> game \<Rightarrow> game" where
  "call_handlers event hs g = g\<lparr>notified := notified g @ map (Pair event) hs\<rparr>"

definition emit :: "string \<Rightarrow> game \<Rightarrow> game completion" where
  "emit event g =
     (case get_property (eventListeners g) event of
        Own hs \<Rightarrow> Normal (call_handlers event hs g)
      | Inherited \<Rightarrow> undefined_method g
      | Undefined \<Rightarrow> Normal g)"

definition togglePause :: "game \<Rightarrow> game completion" where
  "togglePause g = emit ''pauseToggled'' (g\<lparr>isPaused := \<not> isPaused g\<rparr>)"

text \<open>\<open>restartGame\<close>: after the two assignments it calls \<open>this.player.setPosition\<close>, then
  \<open>reset\<close> on every enemy and power-up, then \<open>this.currentMap.reset\<close>. \<open>Player\<close> and
  \<open>Entity\<close> define no \<open>setPosition\<close>, \<open>Enemy\<close> and \<open>PowerUp\<close> no \<open>reset\<close>, and
  \<open>currentMap\<close> is \<open>null\<close>.\<close>

definition restartGame :: "game \<Rightarrow> game completion" where
  "restartGame g =
     seq (Normal (g\<lparr>playerLives := 3, score := 0\<rparr>)) (\<lambda>g.
     seq (undefined_method g) (\<lambda>g.
     seq (forEach (\<lambda>i. undefined_method) [0..<length (enemies g)] g) (\<lambda>g.
     seq (forEach (\<lambda>i. undefined_method) [0..<length (powerUps g)] g) (\<lambda>g.
     seq (undefined_method g) (\<lambda>g.
     emit ''gameRestarted'' (g\<lparr>isPaused := False\<rparr>))))))"

definition handleKeyPress :: "string \<Rightarrow> game \<Rightarrow> game completion" where
  "handleKeyPress code g =
     (if isPaused g then Normal g
      else if code = ''ArrowLeft'' then Normal (g\<lparr>player := moveLeft (player g)\<rparr>)
      else if code = ''ArrowRight'' then Normal (g\<lparr>player := moveRight (player g)\<rparr>)
      else if code = ''Space'' then Normal (g\<lparr>player := jump (player g)\<rparr>)
      else if code = ''KeyF'' then Normal (g\<lparr>player := fire (player g)\<rparr>)
      else if code = ''Escape'' then togglePause g
      else if code = ''KeyR'' then restartGame g
      else Normal g)"

definition updateEntities :: "num \<Rightarrow> game \<Rightarrow> game" where
  "updateEntities cw g =
     g\<lparr>enemies := map (update cw) (enemies g),
       powerUps := map (update cw) (powerUps g),
       player := Player_update cw (player g)\<rparr>"

text \<open>\<open>checkPlayerCollisionWithEnemy\<close>: in the branch of a hit, \<open>playerHit\<close> is emitted and
  then \<open>this.player.takeDamage\<close> is called, a method that \<open>Player\<close> and \<open>Entity\<close> do not
  define. The statements after the call are kept as the source has them.\<close>

definition checkPlayerCollisionWithEnemy :: "entity \<Rightarrow> game \<Rightarrow> game completion" where
  "checkPlayerCollisionWithEnemy enemy g =
     (if isCollideWith (player g) enemy \<and> \<not> dying enemy \<and> \<not> invincibility (player g) then
        seq (emit ''playerHit'' g) (\<lambda>g.
        seq (undefined_method g) (\<lambda>g.
        seq (Normal (g\<lparr>playerLives := playerLives g - 1\<rparr>)) (\<lambda>g.
        if playerLives g \<le> 0 then seq (emit ''gameOver'' g) restartGame
        else Normal g)))
      else Normal g)"

text \<open>\<open>PowerUp.activate\<close> changes the player it is given; for \<open>invincibility\<close> it also sets a
  timer of 5000 ms whose callback, run by the host, is \<open>invincibility_timeout\<close>.\<close>

definition activate :: "powerUp \<Rightarrow> player \<Rightarrow> player" where
  "activate pu p =
     (if type pu = ''speed'' then p
      else if type pu = ''invincibility'' then p\<lparr>invincibility := True\<rparr>
      else p)"

definition invincibility_timeout :: "game \<Rightarrow> game" where
  "invincibility_timeout g =
     (if pendingTimeouts g = 0 then g
      else g\<lparr>player := (player g)\<lparr>invincibility := False\<rparr>,
             pendingTimeouts := pendingTimeouts g - 1\<rparr>)"

definition checkPlayerCollisionWithPowerUp :: "nat \<Rightarrow> game \<Rightarrow> game completion" where
  "checkPlayerCollisionWithPowerUp i g =
     (if isCollideWith (player g) (powerUps g ! i) then
        seq (emit ''playerPowerUp'' g) (\<lambda>g.
        seq (Normal (g\<lparr>player := activate (powerUps g ! i) (player g),
                        pendingTimeouts := pendingTimeouts g
                          + (if type (powerUps g ! i) = ''invincibility'' then 1 else 0)\<rparr>)) (\<lambda>g.
        case destroy (powerUps g ! i) of
          Normal pu \<Rightarrow> Normal (g\<lparr>powerUps := (powerUps g)[i := pu]\<rparr>)
        | Throw err pu \<Rightarrow> Throw err (g\<lparr>powerUps := (powerUps g)[i := pu]\<rparr>)))
      else Normal g)"

text \<open>\<open>forEach\<close> visits the indices of the array as it is when the loop starts; the callbacks
  do not change the length of either array.\<close>

definition handleCollisions :: "game \<Rightarrow> game completion" where
  "handleCollisions g =
     seq (forEach (\<lambda>i g. checkPlayerCollisionWithEnemy (enemies g ! i) g)
            [0..<length (enemies g)] g) (\<lambda>g.
     forEach checkPlayerCollisionWithPowerUp [0..<length (powerUps g)] g)"

text \<open>\<open>renderEntities\<close> starts with \<open>clearCanvas\<close>, whose first statement calls
  \<open>this.getRenderingContext\<close>, a method that \<open>DevGameMaker\<close> does not define. (The \<open>render\<close>
  methods that follow pass no drawing context to \<open>Sprite.render\<close>, which then reads
  \<open>drawImage\<close> of \<open>undefined\<close>.)\<close>

definition clearCanvas :: "game \<Rightarrow> game completion" where
  "clearCanvas g = undefined_method g"

definition renderEntities :: "game \<Rightarrow> game completion" where
  "renderEntities g = seq (clearCanvas g) (\<lambda>g. undefined_method g)"

definition cleanup :: "game \<Rightarrow> game" where
  "cleanup g =
     g\<lparr>enemies := filter (\<lambda>enemy. \<not> isDestroyed enemy) (enemies g),
       powerUps := filter (\<lambda>powerUp. \<not> isDestroyed powerUp) (powerUps g)\<rparr>"

definition gameLoop :: "num \<Rightarrow> game \<Rightarrow> game completion" where
  "gameLoop cw g =
     (if isPaused g then Normal g
      else
        seq (Normal (updateEntities cw g)) (\<lambda>g.
        seq (handleCollisions g) (\<lambda>g.
        seq (renderEntities g) (\<lambda>g.
        seq (Normal (cleanup g)) (\<lambda>g.
        Normal (requestAnimationFrame g))))))"

text \<open>The host runs a requested frame callback once.\<close>

definition animationFrame :: "num \<Rightarrow> game \<Rightarrow> game completion" where
  "animationFrame cw g =
     (if pendingFrames g = 0 then Normal g
      else gameLoop cw (g\<lparr>pendingFrames := pendingFrames g - 1\<rparr>))"

section \<open>The sprite manager (src/public/js/builder.js, class SpriteManager)\<close>

text \<open>
  The tile arithmetic divides, so its numbers are not all finite: a JavaScript number is
  here an exact rational, \<open>Infinity\<close> or \<open>NaN\<close>. The operands of the tile arithmetic are
  never negative (pixel counts and loop indices), so the operations are written out for
  non-negative operands. Rounding is not modelled: the model and IEEE doubles agree
  wherever every intermediate value is a double, as in the concrete sheets below.
\<close>

datatype jsnum = Finite rat | Infinity | NaN

fun js_div :: "jsnum \<Rightarrow> jsnum \<Rightarrow> jsnum" where
  "js_div (Finite a) (Finite b) =
     (if b = 0 then (if a = 0 then NaN else Infinity) else Finite (a / b))"
| "js_div (Finite a) Infinity = Finite 0"
| "js_div Infinity (Finite b) = Infinity"
| "js_div Infinity Infinity = NaN"
| "js_div NaN b = NaN"
| "js_div a NaN = NaN"

fun js_mul :: "jsnum \<Rightarrow> jsnum \<Rightarrow> jsnum" where
  "js_mul (Finite a) (Finite b) = Finite (a * b)"
| "js_mul (Finite a) Infinity = (if a = 0 then NaN else Infinity)"
| "js_mul Infinity (Finite b) = (if b = 0 then NaN else Infinity)"
| "js_mul Infinity Infinity = Infinity"
| "js_mul NaN b = NaN"
| "js_mul a NaN = NaN"

text \<open>The remainder \<open>a % b\<close>; for non-negative operands truncation is the floor.\<close>

fun js_mod :: "jsnum \<Rightarrow> jsnum \<Rightarrow> jsnum" where
  "js_mod (Finite a) (Finite b) =
     (if b = 0 then NaN else Finite (a - b * of_int \<lfloor>a / b\<rfloor>))"
| "js_mod (Finite a) Infinity = Finite a"
| "js_mod Infinity b = NaN"
| "js_mod NaN b = NaN"
| "js_mod a NaN = NaN"

fun js_floor :: "jsnum \<Rightarrow> jsnum" where
  "js_floor (Finite a) = Finite (of_int \<lfloor>a\<rfloor>)"
| "js_floor Infinity = Infinity"
| "js_floor NaN = NaN"

fun js_lt :: "jsnum \<Rightarrow> jsnum \<Rightarrow> bool" where
  "js_lt (Finite a) (Finite b) \<longleftrightarrow> a < b"
| "js_lt (Finite a) Infinity \<longleftrightarrow> True"
| "js_lt Infinity b \<longleftrightarrow> False"
| "js_lt NaN b \<longleftrightarrow> False"
| "js_lt a NaN \<longleftrightarrow> False"

definition js_nat :: "nat \<Rightarrow> jsnum" where
  "js_nat n = Finite (of_nat n)"

text \<open>A tile \<open>{index, x, y}\<close>.\<close>

record item =
  item_index :: nat
  item_x :: jsnum
  item_y :: jsnum

text \<open>
  \<open>_createItems\<close> returns the array \<open>items\<close> empty and leaves a callback that fills it when
  the image has loaded. \<open>createItems_onload W H tw th\<close> is that callback for an image of
  \<open>W\<close> by \<open>H\<close> pixels (\<open>img.width\<close>, \<open>img.height\<close>) and tiles of \<open>tw\<close> by \<open>th\<close> pixels, run on
  the empty array. \<open>push_loop\<close> is its \<open>for\<close> loop, \<open>mk i\<close> the object pushed at index \<open>i\<close>.
  The loop does not end when \<open>totalItems\<close> is \<open>Infinity\<close> (a tile size of 0); then the
  result is \<open>None\<close>.
\<close>

partial_function (option) push_loop ::
  "(nat \<Rightarrow> item) \<Rightarrow> jsnum \<Rightarrow> nat \<Rightarrow> item list \<Rightarrow> item list option" where
  "push_loop mk totalItems i items =
     (if js_lt (js_nat i) totalItems then push_loop mk totalItems (i + 1) (items @ [mk i])
      else Some items)"

declare push_loop.simps [code]

definition createItems_item :: "nat \<Rightarrow> nat \<Rightarrow> nat \<Rightarrow> nat \<Rightarrow> item" where
  "createItems_item W tw th i =
     \<lparr>item_index = i,
      item_x = js_mul (js_mod (js_nat i) (js_div (js_nat W) (js_nat tw))) (js_nat tw),
      item_y = js_mul (js_floor (js_div (js_nat i) (js_div (js_nat W) (js_nat tw))))
                 (js_nat th)\<rparr>"

definition createItems_onload :: "nat \<Rightarrow> nat \<Rightarrow> nat \<Rightarrow> nat \<Rightarrow> item list option" where
  "createItems_onload W H tw th =
     (let totalItems = js_mul (js_div (js_nat W) (js_nat tw)) (js_div (js_nat H) (js_nat th))
      in push_loop (createItems_item W tw th) totalItems 0 [])"

text \<open>
  The page template src/views/game-dev-hub.ejs holds a second \<open>SpriteManager\<close>, whose
  \<open>_loadSpriteImage\<close> slices a sheet with the same loop but takes \<open>Math.floor\<close> of the two
  quotients first.
\<close>

definition loadSpriteImage_item :: "jsnum \<Rightarrow> nat \<Rightarrow> nat \<Rightarrow> nat \<Rightarrow> item" where
  "loadSpriteImage_item cols tw th i =
     \<lparr>item_index = i,
      item_x = js_mul (js_mod (js_nat i) cols) (js_nat tw),
      item_y = js_mul (js_floor (js_div (js_nat i) cols)) (js_nat th)\<rparr>"

definition loadSpriteImage_onload :: "nat \<Rightarrow> nat \<Rightarrow> nat \<Rightarrow> nat \<Rightarrow> item list option" where
  "loadSpriteImage_onload W H tw th =
     (let cols = js_floor (js_div (js_nat W) (js_nat tw));
          rows = js_floor (js_div (js_nat H) (js_nat th));
          totalItems = js_mul rows cols
      in push_loop (loadSpriteImage_item cols tw th) totalItems 0 [])"

text \<open>The tiles of a sheet in the words of the specification: \<open>floor(W/tw) \<times> floor(H/th)\<close>
  tiles, tile \<open>i\<close> at column \<open>i mod floor(W/tw)\<close> and row \<open>floor(i / floor(W/tw))\<close>.\<close>

definition tile_spec :: "nat \<Rightarrow> nat \<Rightarrow> nat \<Rightarrow> nat \<Rightarrow> item" where
  "tile_spec W tw th i =
     \<lparr>item_index = i,
      item_x = js_nat ((i mod (W div tw)) * tw),
      item_y = js_nat ((i div (W div tw)) * th)\<rparr>"

definition tiles_spec :: "nat \<Rightarrow> nat \<Rightarrow> nat \<Rightarrow> nat \<Rightarrow> item list" where
  "tiles_spec W H tw th = map (tile_spec W tw th) [0..<(W div tw) * (H div th)]"

subsection \<open>Lookup\<close>

text \<open>
  \<open>this.sprites\<close> is a plain object created by \<open>{}\<close>, used as a dictionary from sprite type
  to sheet; the model keeps its own properties as a map and reads it with \<open>get_property\<close>.
  An inherited member is truthy and has no property \<open>items\<close>.
\<close>

record spriteInfo =
  imagePath :: string
  spriteWidth :: nat
  spriteHeight :: nat
  items :: "item list"

type_synonym sprites = "string \<rightharpoonup> spriteInfo"

definition SpriteManager :: sprites where
  "SpriteManager = Map.empty"

text \<open>A request \<open>{type, item, color}\<close>; \<open>color\<close> may be absent. The result of \<open>getSprite\<close> is
  a sprite, \<open>null\<close> (\<open>Inr None\<close>) or an exception. \<open>items[item]\<close> is \<open>undefined\<close> for a
  negative index.\<close>

record request =
  request_type :: string
  request_item :: int
  request_color :: "string option"

record sprite_result =
  result_imagePath :: string
  result_position :: "item option"
  result_color :: string

definition getSprite :: "sprites \<Rightarrow> request \<Rightarrow> js_error + sprite_result option" where
  "getSprite sprs req =
     (let color = (case request_color req of None \<Rightarrow> ''default'' | Some c \<Rightarrow> c) in
      case get_property sprs (request_type req) of
        Own spriteInfo \<Rightarrow>
          if request_item req < int (length (items spriteInfo)) then
            Inr (Some \<lparr>result_imagePath = imagePath spriteInfo,
                       result_position =
                         (if 0 \<le> request_item req
                          then Some (items spriteInfo ! nat (request_item req)) else None),
                       result_color = color\<rparr>)
          else Inr None
      | Inherited \<Rightarrow> Inl TypeError
      | Undefined \<Rightarrow> Inr None)"

section \<open>Scenarios\<close>

text \<open>The game after the key Escape and the next frame: paused, with no frame requested.\<close>

definition paused_game :: game where
  "paused_game = DevGameMaker\<lparr>isPaused := True, pendingFrames := 0\<rparr>"

text \<open>A fresh game to which the host page has added an enemy where the player stands.\<close>

definition enemy_game :: game where
  "enemy_game = DevGameMaker\<lparr>enemies := [Enemy (50, 100)]\<rparr>"

text \<open>A fresh game with an observer of \<open>destroyed\<close> and a power-up where the player stands.\<close>

definition powerUp_game :: game where
  "powerUp_game =
     DevGameMaker\<lparr>powerUps := [PowerUp (50, 100) ''speed''],
                  eventListeners := [''destroyed'' \<mapsto> [0]]\<rparr>"

text \<open>One step to the right on a canvas 640 wide: the key ArrowRight, then a frame's update
  of the player.\<close>

definition walk :: "player \<Rightarrow> player" where
  "walk p = Player_update 640 (moveRight p)"

text \<open>An entity near the right edge of a canvas 640 wide, moving right and down.\<close>

definition edge_entity :: entity where
  "edge_entity = (Entity (630, 100) ''sheet.png'')\<lparr>vel := (20, 3)\<rparr>"

section \<open>Properties of entities\<close>

lemmas constructor_defs =
  Player_def Enemy_def PowerUp_def Entity_def entity.defs player.defs powerUp.defs

lemmas hitbox_defs =
  hitbox_pos_def hitbox_width_def hitbox_height_def overlap_x_def overlap_y_def

lemma hitbox_update [simp]: "hitbox (update cw e) = hitbox e"
  by (simp add: update_def checkBounds_def split: prod.splits)

lemma hitbox_Player_update [simp]: "hitbox (Player_update cw p) = hitbox p"
  by (simp add: Player_update_def Let_def)

lemma hitbox_funpow_update: "hitbox ((update cw ^^ n) e) = hitbox e"
  by (induction n) simp_all

text \<open>The constructors compute the hitbox from the position they are given, and no other
  method of an entity, a player or a power-up assigns it.\<close>

lemma hitbox_constructors:
  "hitbox (Entity p s) = (fst p, snd p, 16, 16)" "hitbox (Enemy p) = (fst p, snd p, 16, 16)"
  "hitbox (Player p) = (fst p, snd p, 16, 16)" "hitbox (PowerUp p t) = (fst p, snd p, 16, 16)"
  by (simp_all add: constructor_defs)

lemma hitbox_commands [simp]:
  "hitbox (moveLeft p) = hitbox p" "hitbox (moveRight p) = hitbox p"
  "hitbox (jump p) = hitbox p" "hitbox (fire p) = hitbox p"
  "hitbox (activate pu p) = hitbox p"
  by (simp_all add: moveLeft_def moveRight_def jump_def fire_def activate_def)

lemma hitbox_destroy:
  "destroy e = Throw TypeError (e\<lparr>dying := True\<rparr>) \<and> hitbox (e\<lparr>dying := True\<rparr>) = hitbox e"
  by (simp add: destroy_def)

lemma hitbox_updateEntities:
  "map hitbox (enemies (updateEntities cw g)) = map hitbox (enemies g) \<and>
   map hitbox (powerUps (updateEntities cw g)) = map hitbox (powerUps g) \<and>
   hitbox (player (updateEntities cw g)) = hitbox (player g)"
  by (simp add: updateEntities_def)

lemma update_rest:
  "vel (update cw e) = vel e \<and> sprite (update cw e) = sprite e \<and>
   dying (update cw e) = dying e \<and> isDestroyed (update cw e) = isDestroyed e \<and>
   entity.more (update cw e) = entity.more e"
  by (simp add: update_def checkBounds_def split: prod.splits)

lemma update_pos:
  "pos (update cw e) =
     (if fst (pos e) + fst (vel e) < 0 then 0
      else if cw - hitbox_width e < fst (pos e) + fst (vel e) then cw - hitbox_width e
      else fst (pos e) + fst (vel e),
      snd (pos e) + snd (vel e))"
  by (simp add: update_def checkBounds_def hitbox_width_def split: prod.splits)

text \<open>
  C9. The collision test is symmetric: for all entities \<open>a\<close> and \<open>b\<close>, whatever their
  hitboxes, \<open>a.isCollideWith(b)\<close> equals \<open>b.isCollideWith(a)\<close>.
\<close>

theorem isCollideWith_symmetric: "isCollideWith a b = isCollideWith b a"
  by (auto simp add: isCollideWith_def split: prod.splits)

text \<open>
  C2, as the specification states it, fails: the boxes \<open>[0,0,16,16]\<close> and \<open>[16,0,16,16]\<close>
  share only an edge, their overlap has extent 0 on the x axis, and \<open>isCollideWith\<close>
  returns true for them.
\<close>

theorem isCollideWith_touching_edge:
  "\<not> (isCollideWith (Enemy (0, 0)) (Enemy (16, 0))
        \<longleftrightarrow> collidesWith_spec (Enemy (0, 0)) (Enemy (16, 0)))"
  by (simp add: isCollideWith_def collidesWith_spec_def hitbox_defs constructor_defs)

text \<open>
  C2, amended. For hitboxes of non-negative width and height, \<open>isCollideWith\<close> returns true
  if and only if the overlap of the two boxes has non-negative extent on both axes: boxes
  that overlap or that only touch, along an edge or at a corner, collide; boxes that are
  apart on some axis do not.
\<close>

theorem isCollideWith_closed_overlap:
  assumes "0 \<le> hitbox_width a" and "0 \<le> hitbox_height a"
    and "0 \<le> hitbox_width b" and "0 \<le> hitbox_height b"
  shows "isCollideWith a b \<longleftrightarrow> 0 \<le> overlap_x a b \<and> 0 \<le> overlap_y a b"
  using assms by (auto simp add: isCollideWith_def hitbox_defs split: prod.splits)

text \<open>C2, amended, at the two boxes of the specification's example: they touch and collide.\<close>

theorem isCollideWith_closed_overlap_witness:
  "0 \<le> hitbox_width (Enemy (0, 0)) \<and> 0 \<le> hitbox_height (Enemy (0, 0)) \<and>
   0 \<le> hitbox_width (Enemy (16, 0)) \<and> 0 \<le> hitbox_height (Enemy (16, 0)) \<and>
   overlap_x (Enemy (0, 0)) (Enemy (16, 0)) = 0 \<and>
   isCollideWith (Enemy (0, 0)) (Enemy (16, 0))"
proof -
  have sizes: "0 \<le> hitbox_width (Enemy (0, 0))" "0 \<le> hitbox_height (Enemy (0, 0))"
    "0 \<le> hitbox_width (Enemy (16, 0))" "0 \<le> hitbox_height (Enemy (16, 0))"
    by (simp_all add: hitbox_defs constructor_defs)
  have extents: "overlap_x (Enemy (0, 0)) (Enemy (16, 0)) = 0"
    "overlap_y (Enemy (0, 0)) (Enemy (16, 0)) = 16"
    by (simp_all add: hitbox_defs constructor_defs)
  from isCollideWith_closed_overlap [OF sizes] extents sizes show ?thesis
    by simp
qed

text \<open>
  C10. \<open>Entity.update\<close> changes only the position: it adds the velocity on each axis and
  then brings the x coordinate back to 0 when it is negative and to
  \<open>canvas.width - hitbox width\<close> when it is beyond that, which is clamping to
  \<open>[0, canvas.width - hitbox width]\<close> when the hitbox is not wider than the canvas. Velocity,
  hitbox, sprite, dying state and the fields of a subclass are unchanged, and after any
  number of updates the hitbox of an entity is the one its constructor made.
\<close>

theorem update_frame:
  "vel (update cw e) = vel e \<and> hitbox (update cw e) = hitbox e \<and>
   sprite (update cw e) = sprite e \<and> dying (update cw e) = dying e \<and>
   isDestroyed (update cw e) = isDestroyed e \<and>
   entity.more (update cw e) = entity.more e \<and>
   snd (pos (update cw e)) = snd (pos e) + snd (vel e) \<and>
   fst (pos (update cw e)) =
     (if fst (pos e) + fst (vel e) < 0 then 0
      else if cw - hitbox_width e < fst (pos e) + fst (vel e) then cw - hitbox_width e
      else fst (pos e) + fst (vel e)) \<and>
   (hitbox_width e \<le> cw \<longrightarrow>
      fst (pos (update cw e)) = max 0 (min (cw - hitbox_width e) (fst (pos e) + fst (vel e)))) \<and>
   hitbox ((update cw ^^ n) (Entity p s)) = (fst p, snd p, 16, 16)"
proof -
  have "hitbox ((update cw ^^ n) (Entity p s)) = (fst p, snd p, 16, 16)"
    by (simp add: hitbox_funpow_update Entity_def)
  moreover have "hitbox_width e \<le> cw \<longrightarrow>
      fst (pos (update cw e)) = max 0 (min (cw - hitbox_width e) (fst (pos e) + fst (vel e)))"
    by (auto simp add: update_pos)
  ultimately show ?thesis
    using update_rest [of cw e] by (simp add: update_pos)
qed

text \<open>C10 at an entity that would leave a canvas 640 wide: it is put back at 640 - 16.\<close>

theorem update_frame_witness:
  "hitbox_width edge_entity \<le> 640 \<and>
   pos (update 640 edge_entity) = (624, 103) \<and>
   vel (update 640 edge_entity) = (20, 3) \<and>
   hitbox (update 640 edge_entity) = (630, 100, 16, 16)"
proof -
  have w: "hitbox_width edge_entity = 16" and p: "pos edge_entity = (630, 100)"
    and v: "vel edge_entity = (20, 3)" and h: "hitbox edge_entity = (630, 100, 16, 16)"
    by (simp_all add: edge_entity_def Entity_def hitbox_width_def)
  from update_frame [of 640 edge_entity] w p v h
  have "fst (pos (update 640 edge_entity)) = 624"
    and "snd (pos (update 640 edge_entity)) = 103"
    and "vel (update 640 edge_entity) = (20, 3)"
    and "hitbox (update 640 edge_entity) = (630, 100, 16, 16)"
    by simp_all
  with w show ?thesis by (simp add: prod_eq_iff)
qed

text \<open>
  C5: the code at a player that has moved. A player built at (50, 100) that moves right
  and is updated once stands at (55, 100); its hitbox, which the collision test reads, is
  still at (50, 100), so the hitbox's (x, y) is not the current position.
\<close>

theorem hitbox_stale:
  "hitbox_pos (Player_update 640 (moveRight (Player (50, 100))))
     \<noteq> pos (Player_update 640 (moveRight (Player (50, 100))))"
  by (simp add: hitbox_pos_def Player_update_def moveRight_def update_def checkBounds_def
      constructor_defs Let_def)

text \<open>What the stale hitbox does to the collision test: a player that has walked four
  steps to the right stands at (70, 103), on an enemy built at (70, 100), and the test
  against that enemy returns false; the enemy built at (50, 100), which the player has
  left, still collides.\<close>

lemma stale_hitbox_misses_enemy:
  "pos (walk (walk (walk (walk (Player (50, 100)))))) = (70, 103) \<and>
   \<not> isCollideWith (walk (walk (walk (walk (Player (50, 100)))))) (Enemy (70, 100)) \<and>
   isCollideWith (walk (walk (walk (walk (Player (50, 100)))))) (Enemy (50, 100))"
  by (simp add: walk_def isCollideWith_def Player_update_def moveRight_def update_def
      checkBounds_def constructor_defs Let_def)

section \<open>Properties of the game controller\<close>

lemma seq_Normal [simp]: "seq (Normal s) f = f s"
  by (simp add: seq_def)

lemma seq_Throw [simp]: "seq (Throw err s) f = Throw err s"
  by (simp add: seq_def)

lemmas game_defs = DevGameMaker_def requestAnimationFrame_def constructor_defs

text \<open>The names of the events that the controller emits are not inherited keys, so \<open>emit\<close>
  returns for them; and whatever \<open>emit\<close> does, it changes nothing but the record of the
  calls.\<close>

lemma emit_returns:
  assumes "event \<notin> set Object_prototype_keys"
  shows "emit event g =
           Normal (case eventListeners g event of
                     None \<Rightarrow> g | Some hs \<Rightarrow> call_handlers event hs g)"
  using assms by (simp add: emit_def get_property_def split: option.splits)

lemma emitted_names [simp]:
  "''pauseToggled'' \<notin> set Object_prototype_keys"
  "''playerHit'' \<notin> set Object_prototype_keys"
  "''gameOver'' \<notin> set Object_prototype_keys"
  "''playerPowerUp'' \<notin> set Object_prototype_keys"
  "''gameRestarted'' \<notin> set Object_prototype_keys"
  by (simp_all add: Object_prototype_keys_def)

lemma emit_preserves:
  assumes "emit event g = Normal g' \<or> emit event g = Throw err g'"
  shows "playerLives g' = playerLives g" and "score g' = score g"
    and "isPaused g' = isPaused g" and "pendingFrames g' = pendingFrames g"
    and "player g' = player g" and "enemies g' = enemies g" and "powerUps g' = powerUps g"
  using assms
  by (auto simp add: emit_def call_handlers_def undefined_method_def split: property.splits)

text \<open>\<open>restartGame\<close> stops at \<open>this.player.setPosition\<close>: lives and score are reset, the
  position of the player and the pause flag are as before, and \<open>gameRestarted\<close> is not
  emitted.\<close>

lemma restartGame_throws:
  "restartGame g = Throw TypeError (g\<lparr>playerLives := 3, score := 0\<rparr>)"
  by (simp add: restartGame_def undefined_method_def)

text \<open>A hit stops at \<open>this.player.takeDamage\<close>, after \<open>playerHit\<close> was emitted and before the
  lives are touched.\<close>

lemma checkPlayerCollisionWithEnemy_hit:
  assumes "isCollideWith (player g) enemy" and "\<not> dying enemy"
    and "\<not> invincibility (player g)"
  shows "\<exists>g'. checkPlayerCollisionWithEnemy enemy g = Throw TypeError g' \<and>
              playerLives g' = playerLives g"
proof -
  obtain g1 where e: "emit ''playerHit'' g = Normal g1"
    by (simp add: emit_returns)
  then have "playerLives g1 = playerLives g"
    using emit_preserves(1) [of "''playerHit''" g g1] by simp
  moreover have "checkPlayerCollisionWithEnemy enemy g = Throw TypeError g1"
    using assms e by (simp add: checkPlayerCollisionWithEnemy_def undefined_method_def)
  ultimately show ?thesis by blast
qed

lemma checkPlayerCollisionWithEnemy_miss:
  assumes "\<not> isCollideWith (player g) enemy \<or> dying enemy \<or> invincibility (player g)"
  shows "checkPlayerCollisionWithEnemy enemy g = Normal g"
  using assms by (auto simp add: checkPlayerCollisionWithEnemy_def)

text \<open>Whatever happens in \<open>checkPlayerCollisionWithEnemy\<close>, the lives are what they were.\<close>

lemma checkPlayerCollisionWithEnemy_lives:
  assumes "checkPlayerCollisionWithEnemy enemy g = Normal g' \<or>
           checkPlayerCollisionWithEnemy enemy g = Throw err g'"
  shows "playerLives g' = playerLives g"
proof (cases "isCollideWith (player g) enemy \<and> \<not> dying enemy \<and> \<not> invincibility (player g)")
  case True
  then obtain g1 where "checkPlayerCollisionWithEnemy enemy g = Throw TypeError g1"
    and "playerLives g1 = playerLives g"
    using checkPlayerCollisionWithEnemy_hit by blast
  with assms show ?thesis by auto
next
  case False
  then have "checkPlayerCollisionWithEnemy enemy g = Normal g"
    by (intro checkPlayerCollisionWithEnemy_miss) blast
  with assms show ?thesis by auto
qed

text \<open>
  C3: the code at a hit. A fresh game has 3 lives; the enemy stands where the player
  stands, is not dying, and the player is not invincible. \<open>checkPlayerCollisionWithEnemy\<close>
  ends with a TypeError and the game still has 3 lives. A restart, asked for when the
  player has moved to (55, 100) and the game is paused, ends with a TypeError too: the
  player is still at (55, 100) and the game still paused.
\<close>

theorem enemy_hit_throws:
  "isCollideWith (player enemy_game) (Enemy (50, 100)) \<and> \<not> dying (Enemy (50, 100)) \<and>
   \<not> invincibility (player enemy_game) \<and> playerLives enemy_game = 3 \<and>
   checkPlayerCollisionWithEnemy (Enemy (50, 100)) enemy_game = Throw TypeError enemy_game \<and>
   restartGame (paused_game\<lparr>player := Player_update 640 (moveRight (Player (50, 100)))\<rparr>) =
     Throw TypeError
       (paused_game\<lparr>player := Player_update 640 (moveRight (Player (50, 100))),
                     playerLives := 3, score := 0\<rparr>) \<and>
   isPaused paused_game \<and>
   pos (Player_update 640 (moveRight (Player (50, 100)))) = (55, 100)"
  by (simp add: restartGame_throws checkPlayerCollisionWithEnemy_def undefined_method_def
      isCollideWith_def emit_returns enemy_game_def paused_game_def game_defs
      Player_update_def moveRight_def update_def checkBounds_def Let_def)

text \<open>The sweep keeps every entity whose \<open>isDestroyed\<close> is not set, and no constructor,
  \<open>update\<close> or \<open>destroy\<close> sets it.\<close>

lemma cleanup_keeps:
  assumes "\<forall>e \<in> set (enemies g). \<not> isDestroyed e"
    and "\<forall>p \<in> set (powerUps g). \<not> isDestroyed p"
  shows "cleanup g = g"
  using assms by (simp add: cleanup_def)

lemma destroy_result:
  "destroy e = Throw TypeError (e\<lparr>dying := True\<rparr>) \<and>
   isDestroyed (e\<lparr>dying := True\<rparr>) = isDestroyed e"
  by (simp add: destroy_def)

lemma isDestroyed_constructors [simp]:
  "\<not> isDestroyed (Entity p s)" "\<not> isDestroyed (Enemy p)" "\<not> isDestroyed (Player p)"
  "\<not> isDestroyed (PowerUp p t)"
  by (simp_all add: constructor_defs)

lemma isDestroyed_Player_update [simp]:
  "isDestroyed (Player_update cw p) = isDestroyed p"
  by (simp add: Player_update_def Let_def update_rest)

text \<open>
  C4: the code at a destroyed enemy and a destroyed power-up. \<open>destroy\<close> leaves each with
  \<open>dying\<close> set (and raises TypeError); the sweep that follows removes neither.
\<close>

theorem cleanup_keeps_destroyed:
  "destroy (Enemy (0, 0)) = Throw TypeError ((Enemy (0, 0))\<lparr>dying := True\<rparr>) \<and>
   destroy (PowerUp (8, 8) ''speed'') =
     Throw TypeError ((PowerUp (8, 8) ''speed'')\<lparr>dying := True\<rparr>) \<and>
   enemies (cleanup (DevGameMaker
       \<lparr>enemies := [(Enemy (0, 0))\<lparr>dying := True\<rparr>],
        powerUps := [(PowerUp (8, 8) ''speed'')\<lparr>dying := True\<rparr>]\<rparr>))
     = [(Enemy (0, 0))\<lparr>dying := True\<rparr>] \<and>
   powerUps (cleanup (DevGameMaker
       \<lparr>enemies := [(Enemy (0, 0))\<lparr>dying := True\<rparr>],
        powerUps := [(PowerUp (8, 8) ''speed'')\<lparr>dying := True\<rparr>]\<rparr>))
     = [(PowerUp (8, 8) ''speed'')\<lparr>dying := True\<rparr>]"
  by (simp add: destroy_def cleanup_def game_defs)

text \<open>While the game is paused a key does nothing and a frame does nothing but use up the
  request; \<open>togglePause\<close> flips the flag and requests no frame; a tick of a running game
  stops at \<open>renderEntities\<close> at the latest, before the sweep and before the next frame is
  requested.\<close>

lemma handleKeyPress_paused: "isPaused g \<Longrightarrow> handleKeyPress code g = Normal g"
  by (simp add: handleKeyPress_def)

lemma gameLoop_paused: "isPaused g \<Longrightarrow> gameLoop cw g = Normal g"
  by (simp add: gameLoop_def)

lemma togglePause_result:
  "\<exists>g'. togglePause g = Normal g' \<and> isPaused g' = (\<not> isPaused g) \<and>
         pendingFrames g' = pendingFrames g"
  by (simp add: togglePause_def emit_returns call_handlers_def split: option.splits)

lemma gameLoop_running_throws:
  assumes "\<not> isPaused g"
  shows "\<exists>err g'. gameLoop cw g = Throw err g'"
proof (cases "handleCollisions (updateEntities cw g)")
  case (Normal g1)
  with assms show ?thesis
    by (simp add: gameLoop_def renderEntities_def clearCanvas_def undefined_method_def)
next
  case (Throw err g1)
  with assms show ?thesis by (simp add: gameLoop_def)
qed

text \<open>
  C6: the code at a pause. In a fresh game the key Escape pauses. The frame that follows
  returns at once and requests no further frame. A second Escape is ignored, the game
  stays paused. A direct call of \<open>togglePause\<close> does clear the flag, but no frame is
  requested, so the host runs no tick.
\<close>

theorem pause_never_resumes:
  "handleKeyPress ''Escape'' DevGameMaker = Normal (DevGameMaker\<lparr>isPaused := True\<rparr>) \<and>
   animationFrame 640 (DevGameMaker\<lparr>isPaused := True\<rparr>) = Normal paused_game \<and>
   isPaused paused_game \<and> pendingFrames paused_game = 0 \<and>
   handleKeyPress ''Escape'' paused_game = Normal paused_game \<and>
   togglePause paused_game = Normal (paused_game\<lparr>isPaused := False\<rparr>) \<and>
   pendingFrames (paused_game\<lparr>isPaused := False\<rparr>) = 0 \<and>
   animationFrame 640 (paused_game\<lparr>isPaused := False\<rparr>)
     = Normal (paused_game\<lparr>isPaused := False\<rparr>)"
  by (simp add: handleKeyPress_def togglePause_def emit_returns animationFrame_def
      gameLoop_def paused_game_def DevGameMaker_def requestAnimationFrame_def)

text \<open>
  C7: the code at a collected power-up, with an observer registered for \<open>destroyed\<close>. The
  power-up is marked dying, \<open>destroy\<close> ends with a TypeError, no observer has been
  called, and the sweep keeps the power-up.
\<close>

theorem destroy_throws_unnotified:
  "on ''destroyed'' 0 (DevGameMaker\<lparr>powerUps := [PowerUp (50, 100) ''speed'']\<rparr>)
     = Normal powerUp_game \<and>
   checkPlayerCollisionWithPowerUp 0 powerUp_game =
     Throw TypeError
       (powerUp_game\<lparr>powerUps := [(PowerUp (50, 100) ''speed'')\<lparr>dying := True\<rparr>]\<rparr>) \<and>
   notified (powerUp_game\<lparr>powerUps := [(PowerUp (50, 100) ''speed'')\<lparr>dying := True\<rparr>]\<rparr>) = [] \<and>
   powerUps (cleanup
       (powerUp_game\<lparr>powerUps := [(PowerUp (50, 100) ''speed'')\<lparr>dying := True\<rparr>]\<rparr>))
     = [(PowerUp (50, 100) ''speed'')\<lparr>dying := True\<rparr>]"
  by (simp add: checkPlayerCollisionWithPowerUp_def isCollideWith_def destroy_def
      emit_returns activate_def cleanup_def on_def get_property_def Object_prototype_keys_def
      powerUp_game_def game_defs)

section \<open>Properties of the sprite manager\<close>

subsection \<open>The loop\<close>

lemma ceiling_bound: "\<not> rat_of_nat (nat \<lceil>q\<rceil>) < q"
proof -
  have "q \<le> of_int \<lceil>q\<rceil>" by (rule le_of_int_ceiling)
  also have "(of_int \<lceil>q\<rceil> :: rat) \<le> of_int (int (nat \<lceil>q\<rceil>))" by simp
  also have "\<dots> = of_nat (nat \<lceil>q\<rceil>)" by (rule of_int_of_nat_eq)
  finally show ?thesis by (simp only: not_less)
qed

text \<open>For a finite \<open>totalItems\<close> the loop ends, having pushed one object for each index
  below \<open>totalItems\<close>: the ceiling of \<open>totalItems\<close> many.\<close>

lemma push_loop_finite:
  "i \<le> nat \<lceil>q\<rceil> \<Longrightarrow>
   push_loop mk (Finite q) i acc = Some (acc @ map mk [i..<nat \<lceil>q\<rceil>])"
proof (induction "nat \<lceil>q\<rceil> - i" arbitrary: i acc)
  case 0
  then have "i = nat \<lceil>q\<rceil>" by simp
  then show ?case using ceiling_bound [of q]
    by (subst push_loop.simps) (simp add: js_nat_def)
next
  case (Suc k)
  then have below: "i < nat \<lceil>q\<rceil>" by simp
  then have "int i < \<lceil>q\<rceil>" by simp
  then have enters: "of_nat i < q" by (simp add: less_ceiling_iff)
  have "push_loop mk (Finite q) (i + 1) (acc @ [mk i])
          = Some ((acc @ [mk i]) @ map mk [i + 1..<nat \<lceil>q\<rceil>])"
    using Suc below by (intro Suc.hyps(1)) simp_all
  then show ?case using enters below
    by (subst push_loop.simps) (simp add: js_nat_def upt_conv_Cons)
qed

lemma push_loop_NaN: "push_loop mk NaN i acc = Some acc"
  by (subst push_loop.simps) (simp add: js_nat_def)

lemma push_loop_returns_finite:
  "push_loop mk totalItems i acc = Some result \<Longrightarrow> totalItems \<noteq> Infinity"
  by (rule push_loop.raw_induct [where P = "\<lambda>mk t i acc result. t \<noteq> Infinity"])
     (auto simp: js_nat_def split: if_splits)

text \<open>With \<open>totalItems\<close> infinite the loop does not return.\<close>

lemma push_loop_Infinity: "push_loop mk Infinity i acc = None"
  using push_loop_returns_finite [of mk Infinity i acc]
  by (cases "push_loop mk Infinity i acc") auto

subsection \<open>The two slicers\<close>

lemma js_floor_div:
  "0 < tw \<Longrightarrow> js_floor (js_div (js_nat W) (js_nat tw)) = js_nat (W div tw)"
  by (simp add: js_nat_def floor_divide_of_nat_eq)

lemma js_div_dvd:
  "0 < tw \<Longrightarrow> tw dvd W \<Longrightarrow> js_div (js_nat W) (js_nat tw) = js_nat (W div tw)"
  by (auto simp add: js_nat_def elim: dvdE)

lemma loadSpriteImage_item_row_major:
  assumes "0 < c"
  shows "loadSpriteImage_item (js_nat c) tw th i =
           \<lparr>item_index = i, item_x = js_nat ((i mod c) * tw), item_y = js_nat ((i div c) * th)\<rparr>"
proof -
  have row: "\<lfloor>rat_of_nat i / rat_of_nat c\<rfloor> = int (i div c)"
    by (simp add: floor_divide_of_nat_eq)
  have "rat_of_nat i = of_nat (c * (i div c) + i mod c)" by simp
  then have "rat_of_nat i - of_nat c * of_nat (i div c) = of_nat (i mod c)"
    by (simp only: of_nat_add of_nat_mult)
  then show ?thesis using assms
    by (simp add: loadSpriteImage_item_def js_nat_def row)
qed

text \<open>The slicer of the page template does what the specification says of a sheet, for
  every image and every tile size that is not 0.\<close>

lemma loadSpriteImage_onload_spec:
  assumes "0 < tw" and "0 < th"
  shows "loadSpriteImage_onload W H tw th = Some (tiles_spec W H tw th)"
proof -
  let ?c = "W div tw" and ?r = "H div th"
  have total: "js_mul (js_nat ?r) (js_nat ?c) = Finite (of_nat (?c * ?r))"
    by (simp add: js_nat_def mult.commute)
  have count: "nat \<lceil>rat_of_nat (?c * ?r)\<rceil> = ?c * ?r"
    by (simp only: ceiling_of_nat nat_int)
  have run: "push_loop (loadSpriteImage_item (js_nat ?c) tw th) (Finite (of_nat (?c * ?r))) 0 []
               = Some (map (loadSpriteImage_item (js_nat ?c) tw th) [0..<?c * ?r])"
    using push_loop_finite [of 0 "of_nat (?c * ?r)" _ "[]"] by (simp only: count) simp
  have "map (loadSpriteImage_item (js_nat ?c) tw th) [0..<?c * ?r]
          = map (tile_spec W tw th) [0..<?c * ?r]"
  proof (rule map_cong [OF refl])
    fix i assume "i \<in> set [0..<?c * ?r]"
    then have "0 < ?c" by (cases "?c = 0") auto
    then show "loadSpriteImage_item (js_nat ?c) tw th i = tile_spec W tw th i"
      by (simp add: loadSpriteImage_item_row_major tile_spec_def)
  qed
  with run show ?thesis using assms
    by (simp add: loadSpriteImage_onload_def Let_def js_floor_div total tiles_spec_def)
qed

text \<open>In the exact arithmetic of the model, the slicer of builder.js pushes one tile for
  each index below the product of the two unrounded quotients.\<close>

lemma createItems_onload_count:
  assumes "0 < tw" and "0 < th"
  shows "createItems_onload W H tw th =
           Some (map (createItems_item W tw th)
                  [0..<nat \<lceil>(rat_of_nat W / of_nat tw) * (of_nat H / of_nat th)\<rceil>])"
  using assms
    push_loop_finite [of 0 "(rat_of_nat W / of_nat tw) * (of_nat H / of_nat th)"
      "createItems_item W tw th" "[]"]
  by (simp add: createItems_onload_def js_nat_def)

text \<open>Where the tile size divides the image size on both axes the two slicers agree.\<close>

lemma createItems_onload_divisible:
  assumes "0 < tw" and "0 < th" and "tw dvd W" and "th dvd H"
  shows "createItems_onload W H tw th = Some (tiles_spec W H tw th)"
proof -
  let ?c = "W div tw" and ?r = "H div th"
  have quotients: "js_div (js_nat W) (js_nat tw) = js_nat ?c"
    "js_div (js_nat H) (js_nat th) = js_nat ?r"
    using assms by (simp_all add: js_div_dvd)
  have floors: "js_floor (js_div (js_nat W) (js_nat tw)) = js_nat ?c"
    "js_floor (js_div (js_nat H) (js_nat th)) = js_nat ?r"
    using assms by (simp_all add: js_floor_div)
  have item: "createItems_item W tw th = loadSpriteImage_item (js_nat ?c) tw th"
    by (simp add: fun_eq_iff createItems_item_def loadSpriteImage_item_def quotients)
  have total: "js_mul (js_nat ?c) (js_nat ?r) = js_mul (js_nat ?r) (js_nat ?c)"
    by (simp add: js_nat_def mult.commute)
  have "createItems_onload W H tw th
          = push_loop (loadSpriteImage_item (js_nat ?c) tw th)
              (js_mul (js_nat ?r) (js_nat ?c)) 0 []"
    by (simp only: createItems_onload_def Let_def quotients item total)
  also have "\<dots> = loadSpriteImage_onload W H tw th"
    by (simp only: loadSpriteImage_onload_def Let_def floors)
  finally show ?thesis using assms by (simp add: loadSpriteImage_onload_spec)
qed

text \<open>
  C1: the code at a sheet of 24 by 16 pixels with tiles of 16 by 16. One tile fits
  (\<open>floor(24/16) \<times> floor(16/16) = 1\<close>), and the slicer of the page template makes that
  one tile; \<open>_createItems\<close> of builder.js makes two, the second at x = 16, where only 8
  pixels of the sheet are left.
\<close>

theorem createItems_unfloored:
  "createItems_onload 24 16 16 16 =
     Some [\<lparr>item_index = 0, item_x = Finite 0, item_y = Finite 0\<rparr>,
           \<lparr>item_index = 1, item_x = Finite 16, item_y = Finite 0\<rparr>] \<and>
   tiles_spec 24 16 16 16 = [\<lparr>item_index = 0, item_x = Finite 0, item_y = Finite 0\<rparr>] \<and>
   loadSpriteImage_onload 24 16 16 16 = Some (tiles_spec 24 16 16 16)"
proof -
  have "createItems_onload 24 16 16 16 =
     Some [\<lparr>item_index = 0, item_x = Finite 0, item_y = Finite 0\<rparr>,
           \<lparr>item_index = 1, item_x = Finite 16, item_y = Finite 0\<rparr>]"
    by code_simp
  moreover have "tiles_spec 24 16 16 16 = [\<lparr>item_index = 0, item_x = Finite 0, item_y = Finite 0\<rparr>]"
    by code_simp
  moreover have "loadSpriteImage_onload 24 16 16 16 = Some (tiles_spec 24 16 16 16)"
    by (simp add: loadSpriteImage_onload_spec)
  ultimately show ?thesis by (simp only: simp_thms)
qed

subsection \<open>Lookup\<close>

text \<open>A type that is neither registered nor the name of a member of \<open>Object.prototype\<close>
  gets \<open>null\<close>.\<close>

lemma getSprite_unknown:
  assumes "sprs (request_type req) = None"
    and "request_type req \<notin> set Object_prototype_keys"
  shows "getSprite sprs req = Inr None"
  using assms by (simp add: getSprite_def get_property_def)

lemma getSprite_inherited:
  assumes "sprs (request_type req) = None"
    and "request_type req \<in> set Object_prototype_keys"
  shows "getSprite sprs req = Inl TypeError"
  using assms by (simp add: getSprite_def get_property_def)

text \<open>
  C8: the code at a request for the type \<open>constructor\<close>, on a manager with no sprite
  registered. \<open>this.sprites[type]\<close> is the inherited \<open>Object\<close> function, the test
  \<open>if (this.sprites[type])\<close> passes, \<open>spriteInfo.items\<close> is \<open>undefined\<close> and reading its
  \<open>length\<close> raises TypeError. A type such as \<open>lava\<close> gets \<open>null\<close>.
\<close>

theorem getSprite_inherited_key_throws:
  "SpriteManager ''constructor'' = None \<and>
   getSprite SpriteManager
     \<lparr>request_type = ''constructor'', request_item = 0, request_color = None\<rparr>
     = Inl TypeError \<and>
   getSprite SpriteManager
     \<lparr>request_type = ''lava'', request_item = 0, request_color = None\<rparr>
     = Inr None"
  by (simp add: getSprite_def get_property_def SpriteManager_def Object_prototype_keys_def)

end
